theory Spec2Isabelle
  imports Complex_Main "HOL-Library.AList"
begin

section \<open>Install states and completion outcomes\<close>

text \<open>
  Both server classes (\<^verbatim>\<open>GcpServer\<close> in gcp_server.ts and \<^verbatim>\<open>DigitalOceanServer\<close> in
  part_001) declare the same enum \<^verbatim>\<open>InstallState\<close>. TypeScript numbers its members from
  \<^verbatim>\<open>UNKNOWN = 0\<close> upwards, and the code compares states by these numbers.
\<close>

datatype InstallState = UNKNOWN | CREATED | BOOTED | SUCCESS | ERROR | DELETED

fun state_num :: "InstallState \<Rightarrow> nat" where
  "state_num UNKNOWN = 0"
| "state_num CREATED = 1"
| "state_num BOOTED = 2"
| "state_num SUCCESS = 3"
| "state_num ERROR = 4"
| "state_num DELETED = 5"

text \<open>
  The errors a \<^verbatim>\<open>waitOnInstall()\<close> promise can reject with. The first two are the classes
  of \<^verbatim>\<open>errors\<close> that the code constructs; \<open>CompletionRejected\<close> and \<open>FetchRejected\<close>
  stand for the rejection of an awaited promise of a collaborator (the instance-creation
  \<^verbatim>\<open>completion\<close>, and \<^verbatim>\<open>apiClient.getGuestAttributes\<close>), which an \<^verbatim>\<open>await\<close> with no
  \<^verbatim>\<open>try\<close> around it rethrows unchanged.
\<close>

datatype install_error =
  ServerInstallFailedError | DeletedServerError | CompletionRejected | FetchRejected

datatype outcome = Fulfilled | Rejected install_error

text \<open>The result of awaiting a collaborator's promise.\<close>

datatype 'a awaited = Rejects | Resolves 'a

text \<open>
  The argument of a call of the global \<^verbatim>\<open>trustCertificate\<close>: \<^verbatim>\<open>GcpServer\<close> passes the
  attribute's value as it is, \<^verbatim>\<open>DigitalOceanServer\<close> passes \<^verbatim>\<open>btoa(fingerprint)\<close>. The
  browser's \<^verbatim>\<open>btoa\<close> is kept symbolic.
\<close>

datatype trust_arg = Given string | Btoa string

text \<open>
  The fields the two classes share: \<^verbatim>\<open>installState\<close>, whether a progress \<^verbatim>\<open>listener\<close> is
  registered, the management API URL of the base class \<^verbatim>\<open>ShadowboxServer\<close>, and two logs of
  the calls that leave the object: the progress values handed to the listener
  (\<open>notified\<close>) and the arguments of \<^verbatim>\<open>trustCertificate\<close> (\<open>trusted\<close>).
\<close>

record Server =
  installState :: InstallState
  listener :: bool
  notified :: "rat list"
  managementApiUrl :: "string option"
  trusted :: "trust_arg list"

text \<open>Objects that are compared by identity live in a store; a reference is an index.\<close>

type_synonym ref = nat

definition new_object :: "'a \<Rightarrow> 'a list \<Rightarrow> ref \<times> 'a list" where
  "new_object x store = (length store, store @ [x])"

section \<open>GcpServer (gcp_server.ts): the direct-poll monitor\<close>

record GcpHost =
  locator :: string
  addressName :: string

record GcpServer = Server +
  gcpHost :: ref

definition gcp_installProgress :: "GcpServer \<Rightarrow> rat" where
  "gcp_installProgress s =
     (case installState s of
        UNKNOWN \<Rightarrow> 1 / 10
      | CREATED \<Rightarrow> 2 / 10
      | BOOTED \<Rightarrow> 8 / 10
      | SUCCESS \<Rightarrow> 1
      | _ \<Rightarrow> 0)"

text \<open>\<^verbatim>\<open>GcpServer.setInstallState\<close> assigns with no guard, then tells the listener.\<close>

definition gcp_setInstallState :: "InstallState \<Rightarrow> GcpServer \<Rightarrow> GcpServer" where
  "gcp_setInstallState newState s =
     (let s1 = s\<lparr>installState := newState\<rparr>
      in if listener s1 then s1\<lparr>notified := notified s1 @ [gcp_installProgress s1]\<rparr> else s1)"

definition gcp_setProgressListener :: "GcpServer \<Rightarrow> GcpServer" where
  "gcp_setProgressListener s =
     s\<lparr>listener := True, notified := notified s @ [gcp_installProgress s]\<rparr>"

text \<open>\<^verbatim>\<open>GcpServer.onDelete\<close> writes the field directly: the listener is not told.\<close>

definition gcp_onDelete :: "GcpServer \<Rightarrow> GcpServer" where
  "gcp_onDelete s = s\<lparr>installState := DELETED\<rparr>"

definition gcp_isInstallCompleted :: "GcpServer \<Rightarrow> bool" where
  "gcp_isInstallCompleted s = (state_num SUCCESS \<le> state_num (installState s))"

text \<open>
  The constructor builds the one \<^verbatim>\<open>GcpHost\<close> of the server and keeps it in the read-only
  field \<^verbatim>\<open>gcpHost\<close>; \<^verbatim>\<open>getHost()\<close> returns that field.
\<close>

definition GcpServer_new :: "string \<Rightarrow> string \<Rightarrow> GcpHost list \<Rightarrow> GcpServer \<times> GcpHost list" where
  "GcpServer_new loc instanceName store =
     (let (r, store') = new_object \<lparr>locator = loc, addressName = instanceName\<rparr> store
      in (\<lparr>installState = UNKNOWN, listener = False, notified = [], managementApiUrl = None,
            trusted = [], gcpHost = r\<rparr>, store'))"

definition gcp_getHost :: "GcpServer \<Rightarrow> GcpHost list \<Rightarrow> ref \<times> GcpHost list" where
  "gcp_getHost s store = (gcpHost s, store)"

text \<open>
  \<^verbatim>\<open>getOutlineGuestAttributes\<close>: the argument is \<^verbatim>\<open>guestAttributes?.queryValue?.items\<close>, which
  is \<open>None\<close> when the response or one of the two fields is missing (\<^verbatim>\<open>?? []\<close>). The entries
  are put into a \<^verbatim>\<open>Map\<close> one by one, a later entry replacing an earlier one of the same key.
  The \<^verbatim>\<open>Map\<close> is an association list with distinct keys: \<^verbatim>\<open>size > 0\<close> is \<open>\<noteq> []\<close>,
  \<^verbatim>\<open>has\<close> and \<^verbatim>\<open>get\<close> are \<open>map_of\<close>.
\<close>

definition getOutlineGuestAttributes :: "(string \<times> string) list option \<Rightarrow> (string \<times> string) list" where
  "getOutlineGuestAttributes items =
     foldl (\<lambda>result (k, v). AList.update k v result) []
       (case items of None \<Rightarrow> [] | Some entries \<Rightarrow> entries)"

text \<open>
  One pass of the body of the \<^verbatim>\<open>while\<close> loop of \<^verbatim>\<open>GcpServer.waitOnInstall\<close>, from the fetched
  attributes to the \<^verbatim>\<open>sleep\<close>: the new server and the error thrown, if any.
\<close>

definition waitOnInstall_body ::
  "(string \<times> string) list \<Rightarrow> GcpServer \<Rightarrow> GcpServer \<times> install_error option" where
  "waitOnInstall_body attrs s =
     (let s1 = (if attrs \<noteq> [] \<and> state_num (installState s) < state_num BOOTED
                then gcp_setInstallState BOOTED s else s)
      in case (map_of attrs ''apiUrl'', map_of attrs ''certSha256'') of
           (Some apiUrl, Some fingerprint) \<Rightarrow>
             (gcp_setInstallState SUCCESS
                (s1\<lparr>trusted := trusted s1 @ [Given fingerprint],
                    managementApiUrl := Some apiUrl\<rparr>), None)
         | _ \<Rightarrow>
             (if map_of attrs ''install-error'' \<noteq> None
              then (gcp_setInstallState ERROR s1, Some ServerInstallFailedError)
              else (s1, None)))"

text \<open>
  What the environment does during one iteration: the result of the awaited fetch, and
  whether the delete callback ran while the loop was suspended in the fetch or in the
  sleep (\<^verbatim>\<open>GcpHost.delete\<close> calls it from another task).
\<close>

record poll =
  fetched :: "(string \<times> string) list option awaited"
  deleted_in_fetch :: bool
  deleted_in_sleep :: bool

text \<open>
  The \<^verbatim>\<open>while (this.installState < InstallState.SUCCESS)\<close> loop. It has no bound of its
  own, so it runs on the list of what the environment does in each iteration; the outcome
  is \<open>None\<close> when the list ends with the loop about to fetch again.
\<close>

fun waitOnInstall_loop :: "GcpServer \<Rightarrow> poll list \<Rightarrow> GcpServer \<times> outcome option" where
  "waitOnInstall_loop s [] =
     (s, if state_num (installState s) < state_num SUCCESS then None else Some Fulfilled)"
| "waitOnInstall_loop s (p # ps) =
     (if state_num (installState s) < state_num SUCCESS then
        (let s1 = (if deleted_in_fetch p then gcp_onDelete s else s)
         in case fetched p of
              Rejects \<Rightarrow> (s1, Some (Rejected FetchRejected))
            | Resolves items \<Rightarrow>
                (case waitOnInstall_body (getOutlineGuestAttributes items) s1 of
                   (s2, Some e) \<Rightarrow> (s2, Some (Rejected e))
                 | (s2, None) \<Rightarrow>
                     waitOnInstall_loop (if deleted_in_sleep p then gcp_onDelete s2 else s2) ps))
      else (s, Some Fulfilled))"

text \<open>
  \<^verbatim>\<open>GcpServer.waitOnInstall\<close>: await the creation \<^verbatim>\<open>completion\<close>, set \<^verbatim>\<open>CREATED\<close>, then poll.
\<close>

definition gcp_waitOnInstall ::
  "unit awaited \<Rightarrow> poll list \<Rightarrow> GcpServer \<Rightarrow> GcpServer \<times> outcome option" where
  "gcp_waitOnInstall completion ps s =
     (case completion of
        Rejects \<Rightarrow> (s, Some (Rejected CompletionRejected))
      | Resolves _ \<Rightarrow> waitOnInstall_loop (gcp_setInstallState CREATED s) ps)"

section \<open>DigitalOceanServer (part_001): the cached-refresh monitor\<close>

subsection \<open>Strings\<close>

text \<open>
  A string is a list of characters of the type \<open>char\<close>, read as the code units U+0000 to
  U+00FF; a string with a code unit beyond U+00FF (the Kelvin sign U+212A, which
  \<^verbatim>\<open>toLowerCase\<close> turns into \<^verbatim>\<open>k\<close>, is one) is not a value of this type. On these code units
  \<^verbatim>\<open>toLowerCase\<close> changes the letters \<^verbatim>\<open>A\<close> to \<^verbatim>\<open>Z\<close> and the upper-case letters U+00C0 to
  U+00DE, the multiplication sign U+00D7 apart, each to the code unit 32 above it.
\<close>

definition toLowerCase_char :: "char \<Rightarrow> char" where
  "toLowerCase_char c =
     (let n = (of_char c :: nat)
      in if (65 \<le> n \<and> n \<le> 90) \<or> (192 \<le> n \<and> n \<le> 222 \<and> n \<noteq> 215) then char_of (n + 32)
         else c)"

definition toLowerCase :: "string \<Rightarrow> string" where
  "toLowerCase s = map toLowerCase_char s"

text \<open>\<^verbatim>\<open>text.slice(0, prefix.length).toLowerCase() === prefix.toLowerCase()\<close>\<close>

definition startsWithCaseInsensitive :: "string \<Rightarrow> string \<Rightarrow> bool" where
  "startsWithCaseInsensitive txt prefix =
     (toLowerCase (take (length prefix) txt) = toLowerCase prefix)"

text \<open>\<^verbatim>\<open>s.split(sep)\<close> for a one-character separator: the empty string gives one empty piece.\<close>

fun split_on :: "char \<Rightarrow> string \<Rightarrow> string list" where
  "split_on sep [] = [[]]"
| "split_on sep (c # cs) =
     (if c = sep then [] # split_on sep cs
      else (case split_on sep cs of [] \<Rightarrow> [[c]] | w # ws \<Rightarrow> (c # w) # ws))"

text \<open>\<^verbatim>\<open>s.endsWith('/')\<close>\<close>

definition endsWithSlash :: "string \<Rightarrow> bool" where
  "endsWithSlash s = (s \<noteq> [] \<and> last s = CHR ''/'')"

text \<open>
  A value read from the tag object is a string or \<^verbatim>\<open>undefined\<close> (\<open>None\<close>). In a condition
  JavaScript takes \<^verbatim>\<open>undefined\<close> and the empty string as false; in a template literal
  \<^verbatim>\<open>undefined\<close> prints as the word.
\<close>

definition truthy :: "string option \<Rightarrow> bool" where
  "truthy v = (case v of None \<Rightarrow> False | Some x \<Rightarrow> x \<noteq> [])"

definition js_text :: "string option \<Rightarrow> string" where
  "js_text v = (case v of None \<Rightarrow> ''undefined'' | Some x \<Rightarrow> x)"

subsection \<open>Droplet data and tags\<close>

record network =
  net_type :: string
  ip_address :: string

record DropletInfo =
  droplet_id :: string
  status :: string
  tags :: "string list"
  networks_v4 :: "network list"
  size_transfer :: rat
  size_price_monthly :: rat
  region_slug :: string

text \<open>
  \<^verbatim>\<open>getTagMap\<close>. The decoder \<^verbatim>\<open>hexToString\<close> belongs to \<^verbatim>\<open>../infrastructure/hex_encoding\<close>,
  which is not among the sources, so it is a parameter: its argument is \<open>None\<close> when the
  tag has no second piece (\<^verbatim>\<open>hexValue\<close> is \<^verbatim>\<open>undefined\<close>), and its result is \<open>None\<close> when
  it throws, in which case the tag is skipped. The returned object is the association list
  of its own properties, with distinct keys, so \<^verbatim>\<open>Object.keys(tagMap).length > 0\<close> is
  \<open>\<noteq> []\<close>. The object is a plain \<^verbatim>\<open>{}\<close>: an assignment to the key \<^verbatim>\<open>__proto__\<close> runs the
  setter of \<^verbatim>\<open>Object.prototype\<close>, which drops a string, so that key never becomes a
  property; every other key does (the other properties of \<^verbatim>\<open>Object.prototype\<close> are
  writable data properties, which an assignment shadows).
\<close>

definition getTagMap ::
  "(string option \<Rightarrow> string option) \<Rightarrow> DropletInfo \<Rightarrow> (string \<times> string) list" where
  "getTagMap hexToString d =
     foldl (\<lambda>ret tag.
        if \<not> startsWithCaseInsensitive tag ''kv:'' then ret
        else (case take 2 (split_on CHR '':'' (drop (length ''kv:'') tag)) of
                [] \<Rightarrow> ret
              | key # rest \<Rightarrow>
                  (case hexToString (case rest of [] \<Rightarrow> None | hexValue # _ \<Rightarrow> Some hexValue) of
                     None \<Rightarrow> ret
                   | Some v \<Rightarrow>
                       if toLowerCase key = ''__proto__'' then ret
                       else AList.update (toLowerCase key) v ret)))
       [] (tags d)"

text \<open>\<^verbatim>\<open>ipv4Address\<close>: the address of the first network of type public.\<close>

definition ipv4Address :: "DropletInfo \<Rightarrow> string option" where
  "ipv4Address d = map_option ip_address (find (\<lambda>n. net_type n = ''public'') (networks_v4 d))"

text \<open>
  The body of \<^verbatim>\<open>getManagementApiAddress\<close> on the tag map and the result of
  \<^verbatim>\<open>this.ipv4Address()\<close>; \<open>Inl\<close> carries the message of the \<^verbatim>\<open>Error\<close> thrown.
\<close>

definition apiAddress_of :: "(string \<times> string) list \<Rightarrow> string option \<Rightarrow> string + string" where
  "apiAddress_of tagMap ip =
     (let found =
        (if truthy (map_of tagMap ''apiurl'') then Inr (js_text (map_of tagMap ''apiurl''))
         else if \<not> truthy (map_of tagMap ''apiport'') then Inl ''Could not get API port number''
         else if \<not> truthy ip then Inl ''API hostname not set''
         else Inr (''https://'' @ js_text ip @ '':'' @ js_text (map_of tagMap ''apiport'') @ ''/''
                   @ (if truthy (map_of tagMap ''apiprefix'')
                      then js_text (map_of tagMap ''apiprefix'') @ ''/'' else [])))
      in case found of
           Inl e \<Rightarrow> Inl e
         | Inr apiAddress \<Rightarrow>
             Inr (if endsWithSlash apiAddress then apiAddress else apiAddress @ ''/''))"

definition getManagementApiAddress ::
  "(string option \<Rightarrow> string option) \<Rightarrow> DropletInfo \<Rightarrow> string + string" where
  "getManagementApiAddress hexToString d = apiAddress_of (getTagMap hexToString d) (ipv4Address d)"

text \<open>The body of \<^verbatim>\<open>getCertificateFingerprint\<close> on the tag map.\<close>

definition certificateFingerprint_of :: "(string \<times> string) list \<Rightarrow> string + trust_arg" where
  "certificateFingerprint_of tagMap =
     (let fingerprint = map_of tagMap ''certsha256''
      in if truthy fingerprint then Inr (Btoa (js_text fingerprint))
         else Inl ''certificate fingerprint unavailable'')"

definition getCertificateFingerprint ::
  "(string option \<Rightarrow> string option) \<Rightarrow> DropletInfo \<Rightarrow> string + trust_arg" where
  "getCertificateFingerprint hexToString d = certificateFingerprint_of (getTagMap hexToString d)"

subsection \<open>The server object\<close>

text \<open>
  \<open>digitalOcean\<close> names the session, \<open>localStorage\<close> is the browser's store (global in
  the code), \<open>startTimestamp\<close> is the constant of that name in \<^verbatim>\<open>pollInstallState\<close>, and
  \<open>refreshing\<close> tells whether the 3-second interval set there is still active.
\<close>

record DigitalOceanServer = Server +
  digitalOcean :: nat
  dropletInfo :: DropletInfo
  localStorage :: "(string \<times> string) list"
  startTimestamp :: int
  refreshing :: bool

record DigitalOceanHost =
  host_digitalOcean :: nat
  host_dropletInfo :: DropletInfo

definition TIMEOUT_MS :: int where
  "TIMEOUT_MS = 5 * 60 * 1000"

definition do_installProgress :: "DigitalOceanServer \<Rightarrow> rat" where
  "do_installProgress s =
     (case installState s of
        UNKNOWN \<Rightarrow> 1 / 10
      | CREATED \<Rightarrow> 5 / 10
      | BOOTED \<Rightarrow> 6 / 10
      | SUCCESS \<Rightarrow> 1
      | _ \<Rightarrow> 0)"

definition getInstallCompletedStorageKey :: "DigitalOceanServer \<Rightarrow> string" where
  "getInstallCompletedStorageKey s = ''droplet-'' @ droplet_id (dropletInfo s) @ ''-install-completed''"

definition setInstallCompleted :: "DigitalOceanServer \<Rightarrow> DigitalOceanServer" where
  "setInstallCompleted s =
     s\<lparr>localStorage := AList.update (getInstallCompletedStorageKey s) ''true'' (localStorage s)\<rparr>"

definition do_isInstallCompleted :: "DigitalOceanServer \<Rightarrow> bool" where
  "do_isInstallCompleted s =
     (map_of (localStorage s) (getInstallCompletedStorageKey s) = Some ''true'')"

text \<open>\<^verbatim>\<open>DigitalOceanServer.setInstallState\<close>: a final state is kept.\<close>

definition do_setInstallState :: "InstallState \<Rightarrow> DigitalOceanServer \<Rightarrow> DigitalOceanServer" where
  "do_setInstallState newState s =
     (if state_num SUCCESS \<le> state_num (installState s) then s
      else (let s1 = s\<lparr>installState := newState\<rparr>;
                s2 = (if installState s1 = SUCCESS then setInstallCompleted s1 else s1)
            in if listener s2 then s2\<lparr>notified := notified s2 @ [do_installProgress s2]\<rparr>
               else s2))"

definition do_setProgressListener :: "DigitalOceanServer \<Rightarrow> DigitalOceanServer" where
  "do_setProgressListener s =
     s\<lparr>listener := True, notified := notified s @ [do_installProgress s]\<rparr>"

definition do_onDelete :: "DigitalOceanServer \<Rightarrow> DigitalOceanServer" where
  "do_onDelete s = do_setInstallState DELETED s"

text \<open>\<^verbatim>\<open>getHost()\<close> constructs a new \<^verbatim>\<open>DigitalOceanHost\<close> on every call.\<close>

definition do_getHost ::
  "DigitalOceanServer \<Rightarrow> DigitalOceanHost list \<Rightarrow> ref \<times> DigitalOceanHost list" where
  "do_getHost s store =
     new_object \<lparr>host_digitalOcean = digitalOcean s, host_dropletInfo = dropletInfo s\<rparr> store"

definition getMonthlyCost :: "DigitalOceanHost \<Rightarrow> rat" where
  "getMonthlyCost h = size_price_monthly (host_dropletInfo h)"

definition getCloudLocation :: "DigitalOceanHost \<Rightarrow> string" where
  "getCloudLocation h = region_slug (host_dropletInfo h)"

text \<open>\<^verbatim>\<open>setApiUrlAndCertificate\<close>: both getters first, then the two effects.\<close>

definition setApiUrlAndCertificate ::
  "(string option \<Rightarrow> string option) \<Rightarrow> DigitalOceanServer \<Rightarrow> DigitalOceanServer \<times> bool" where
  "setApiUrlAndCertificate hexToString s =
     (case getCertificateFingerprint hexToString (dropletInfo s) of
        Inl _ \<Rightarrow> (s, False)
      | Inr certificateFingerprint \<Rightarrow>
          (case getManagementApiAddress hexToString (dropletInfo s) of
             Inl _ \<Rightarrow> (s, False)
           | Inr apiAddress \<Rightarrow>
               (s\<lparr>trusted := trusted s @ [certificateFingerprint],
                  managementApiUrl := Some apiAddress\<rparr>, True)))"

text \<open>
  \<^verbatim>\<open>updateInstallState\<close>, the closure of \<^verbatim>\<open>pollInstallState\<close>; \<open>now\<close> is what \<^verbatim>\<open>Date.now()\<close>
  returns in it.
\<close>

definition updateInstallState ::
  "(string option \<Rightarrow> string option) \<Rightarrow> int \<Rightarrow> DigitalOceanServer \<Rightarrow> DigitalOceanServer" where
  "updateInstallState hexToString now s =
     (if state_num SUCCESS \<le> state_num (installState s) then s
      else (let tagMap = getTagMap hexToString (dropletInfo s)
            in if truthy (map_of tagMap ''install-error'') then do_setInstallState ERROR s
               else if TIMEOUT_MS \<le> now - startTimestamp s then do_setInstallState ERROR s
               else (case setApiUrlAndCertificate hexToString s of
                       (s1, True) \<Rightarrow> do_setInstallState SUCCESS s1
                     | (s1, False) \<Rightarrow>
                         if tagMap \<noteq> [] then do_setInstallState BOOTED s1
                         else if status (dropletInfo s1) = ''active''
                              then do_setInstallState CREATED s1
                         else s1)))"

text \<open>
  The same two functions on the tag map: each call of \<^verbatim>\<open>this.getTagMap()\<close> in
  \<^verbatim>\<open>updateInstallState\<close>, and in the two getters that \<^verbatim>\<open>setApiUrlAndCertificate\<close> calls,
  reads the same droplet and returns the same object, here \<open>tagMap\<close>.
\<close>

definition setApiUrlAndCertificate_on ::
  "(string \<times> string) list \<Rightarrow> DigitalOceanServer \<Rightarrow> DigitalOceanServer \<times> bool" where
  "setApiUrlAndCertificate_on tagMap s =
     (case certificateFingerprint_of tagMap of
        Inl _ \<Rightarrow> (s, False)
      | Inr certificateFingerprint \<Rightarrow>
          (case apiAddress_of tagMap (ipv4Address (dropletInfo s)) of
             Inl _ \<Rightarrow> (s, False)
           | Inr apiAddress \<Rightarrow>
               (s\<lparr>trusted := trusted s @ [certificateFingerprint],
                  managementApiUrl := Some apiAddress\<rparr>, True)))"

definition updateInstallState_on ::
  "(string \<times> string) list \<Rightarrow> int \<Rightarrow> DigitalOceanServer \<Rightarrow> DigitalOceanServer" where
  "updateInstallState_on tagMap now s =
     (if state_num SUCCESS \<le> state_num (installState s) then s
      else if truthy (map_of tagMap ''install-error'') then do_setInstallState ERROR s
      else if TIMEOUT_MS \<le> now - startTimestamp s then do_setInstallState ERROR s
      else (case setApiUrlAndCertificate_on tagMap s of
              (s1, True) \<Rightarrow> do_setInstallState SUCCESS s1
            | (s1, False) \<Rightarrow>
                if tagMap \<noteq> [] then do_setInstallState BOOTED s1
                else if status (dropletInfo s1) = ''active''
                     then do_setInstallState CREATED s1
                else s1))"

text \<open>
  \<^verbatim>\<open>pollInstallState\<close> up to \<^verbatim>\<open>setInterval\<close>: \<open>start\<close> and \<open>now\<close> are the two readings of
  the clock, and the interval is set unless the first evaluation already gave a final
  state.
\<close>

definition pollInstallState ::
  "(string option \<Rightarrow> string option) \<Rightarrow> int \<Rightarrow> int \<Rightarrow> DigitalOceanServer \<Rightarrow> DigitalOceanServer" where
  "pollInstallState hexToString start now s =
     (let s1 = updateInstallState hexToString now (s\<lparr>startTimestamp := start\<rparr>)
      in if state_num SUCCESS \<le> state_num (installState s1) then s1
         else s1\<lparr>refreshing := True\<rparr>)"

definition DigitalOceanServer_new ::
  "(string option \<Rightarrow> string option) \<Rightarrow> nat \<Rightarrow> DropletInfo \<Rightarrow> (string \<times> string) list
     \<Rightarrow> int \<Rightarrow> int \<Rightarrow> DigitalOceanServer" where
  "DigitalOceanServer_new hexToString session d storage start now =
     pollInstallState hexToString start now
       \<lparr>installState = UNKNOWN, listener = False, notified = [], managementApiUrl = None,
        trusted = [], digitalOcean = session, dropletInfo = d, localStorage = storage,
        startTimestamp = start, refreshing = False\<rparr>"

text \<open>
  What happens to a server after its construction, one task of the event loop at a time.
  The callback of the 3-second interval is two tasks, split at its \<^verbatim>\<open>await\<close>: \<open>TickStart\<close>
  is the test before the refresh; \<open>RefreshFailed\<close> and \<open>Refreshed d\<close> are what follows a
  refresh that threw or that brought the droplet \<open>d\<close>. \<open>NotifyDeleted\<close> is the delete
  callback. Each event comes with the time at which it runs. The \<^verbatim>\<open>server-active\<close> event
  that \<^verbatim>\<open>refreshDropletInfo\<close> emits only stops a console timer and is left out, as are the
  messages written to the console.
\<close>

datatype do_event = TickStart | RefreshFailed | Refreshed DropletInfo | NotifyDeleted

fun do_step ::
  "(string option \<Rightarrow> string option) \<Rightarrow> DigitalOceanServer \<Rightarrow> int \<times> do_event \<Rightarrow> DigitalOceanServer" where
  "do_step hexToString s (t, TickStart) =
     (if state_num SUCCESS \<le> state_num (installState s) then s\<lparr>refreshing := False\<rparr> else s)"
| "do_step hexToString s (t, RefreshFailed) =
     (do_setInstallState ERROR s)\<lparr>refreshing := False\<rparr>"
| "do_step hexToString s (t, Refreshed d) =
     (let s1 = updateInstallState hexToString t (s\<lparr>dropletInfo := d\<rparr>)
      in if state_num SUCCESS \<le> state_num (installState s1) then s1\<lparr>refreshing := False\<rparr>
         else s1)"
| "do_step hexToString s (t, NotifyDeleted) = do_onDelete s"

definition do_run ::
  "(string option \<Rightarrow> string option) \<Rightarrow> DigitalOceanServer \<Rightarrow> (int \<times> do_event) list \<Rightarrow> DigitalOceanServer" where
  "do_run hexToString s evs = foldl (do_step hexToString) s evs"

text \<open>
  One firing of the 100 ms interval of \<^verbatim>\<open>DigitalOceanServer.waitOnInstall\<close>: \<open>Wait\<close> leaves
  the interval running, \<open>Settle\<close> clears it and settles the promise, \<open>ClearOnly\<close> clears it
  and leaves the promise pending (the branch with no \<^verbatim>\<open>else\<close>).
\<close>

datatype wait_tick = Wait | Settle outcome | ClearOnly

definition do_waitOnInstall_tick :: "DigitalOceanServer \<Rightarrow> wait_tick" where
  "do_waitOnInstall_tick s =
     (if state_num (installState s) < state_num SUCCESS then Wait
      else if installState s = SUCCESS then Settle Fulfilled
      else if installState s = ERROR then Settle (Rejected ServerInstallFailedError)
      else if installState s = DELETED then Settle (Rejected DeletedServerError)
      else ClearOnly)"

text \<open>
  Modelled from the spec: \<^verbatim>\<open>hexToString\<close> of \<^verbatim>\<open>../infrastructure/hex_encoding\<close> is not among
  the sources. The spec calls a tag's value hex-encoded and says that a value which does
  not decode is skipped: two hexadecimal digits give one character, anything else fails.
  The theorems below hold for every decoder; this one is used where a concrete tag is
  evaluated.
\<close>

definition hex_digit :: "char \<Rightarrow> nat option" where
  "hex_digit c =
     (let n = (of_char c :: nat)
      in if 48 \<le> n \<and> n \<le> 57 then Some (n - 48)
         else if 97 \<le> n \<and> n \<le> 102 then Some (n - 87)
         else if 65 \<le> n \<and> n \<le> 70 then Some (n - 55)
         else None)"

fun hex_pairs :: "string \<Rightarrow> string option" where
  "hex_pairs [] = Some []"
| "hex_pairs [a] = None"
| "hex_pairs (a # b # rest) =
     (case (hex_digit a, hex_digit b, hex_pairs rest) of
        (Some x, Some y, Some decoded) \<Rightarrow> Some (char_of (16 * x + y) # decoded)
      | _ \<Rightarrow> None)"

definition hexToString :: "string option \<Rightarrow> string option" where
  "hexToString hexValue = (case hexValue of None \<Rightarrow> None | Some h \<Rightarrow> hex_pairs h)"

section \<open>Concrete servers and inputs\<close>

text \<open>The inputs at which the theorems below are evaluated.\<close>

definition poll_of :: "(string \<times> string) list option \<Rightarrow> poll" where
  "poll_of items = \<lparr>fetched = Resolves items, deleted_in_fetch = False, deleted_in_sleep = False\<rparr>"

definition gcp_fresh :: GcpServer where
  "gcp_fresh = fst (GcpServer_new ''zone-a/instance-1'' ''outline-1'' [])"

definition gcp_created :: GcpServer where
  "gcp_created = gcp_setInstallState CREATED gcp_fresh"

definition ready_items :: "(string \<times> string) list" where
  "ready_items = [(''apiUrl'', ''https://1.2.3.4:8080/x''), (''certSha256'', ''ABCD'')]"

definition failed_items :: "(string \<times> string) list" where
  "failed_items = [(''install-error'', ''true'')]"

definition droplet :: "string list \<Rightarrow> DropletInfo" where
  "droplet ts =
     \<lparr>droplet_id = ''42'', status = ''active'', tags = ts,
      networks_v4 = [\<lparr>net_type = ''private'', ip_address = ''10.0.0.1''\<rparr>,
                     \<lparr>net_type = ''public'', ip_address = ''1.2.3.4''\<rparr>],
      size_transfer = 1, size_price_monthly = 5, region_slug = ''nyc1''\<rparr>"

text \<open>A server constructed at time 0 on a droplet with the tags \<open>ts\<close>.\<close>

definition do_server :: "string list \<Rightarrow> DigitalOceanServer" where
  "do_server ts = DigitalOceanServer_new hexToString 7 (droplet ts) [] 0 0"

definition deleted_while_fetching :: "(string \<times> string) list option \<Rightarrow> poll" where
  "deleted_while_fetching items =
     \<lparr>fetched = Resolves items, deleted_in_fetch = True, deleted_in_sleep = False\<rparr>"

definition deleted_while_sleeping :: "(string \<times> string) list option \<Rightarrow> poll" where
  "deleted_while_sleeping items =
     \<lparr>fetched = Resolves items, deleted_in_fetch = False, deleted_in_sleep = True\<rparr>"

definition fetch_rejected :: poll where
  "fetch_rejected = \<lparr>fetched = Rejects, deleted_in_fetch = False, deleted_in_sleep = False\<rparr>"

definition gcp_store :: "GcpHost list" where
  "gcp_store = snd (GcpServer_new ''zone-a/instance-1'' ''outline-1'' [])"

text \<open>
  Tags of a finished installation: the fingerprint \<^verbatim>\<open>ABCD\<close> and the URL \<^verbatim>\<open>https://x/\<close>,
  hex-encoded.
\<close>

definition ready_tags :: "string list" where
  "ready_tags = [''kv:certsha256:41424344'', ''kv:apiurl:68747470733a2f2f782f'']"

text \<open>A server that waits in \<^verbatim>\<open>CREATED\<close> and whose droplet has just been replaced.\<close>

definition refreshed_server :: "string list \<Rightarrow> DigitalOceanServer" where
  "refreshed_server ts = (do_server [])\<lparr>dropletInfo := droplet ts\<rparr>"

text \<open>Two refreshes that bring no tags, one after 3 seconds and one after 5 minutes.\<close>

definition idle_events :: "(int \<times> do_event) list" where
  "idle_events =
     [(3000, TickStart), (3200, Refreshed (droplet [])),
      (300000, TickStart), (300200, Refreshed (droplet []))]"

section \<open>Predicates of the statements\<close>

text \<open>
  A droplet is quiet when its tags give neither an error attribute that the code takes as
  set nor a fingerprint and address that both resolve; an event is quiet when it is the
  start of a tick or a refresh that brought a quiet droplet.
\<close>

definition quiet_droplet :: "(string option \<Rightarrow> string option) \<Rightarrow> DropletInfo \<Rightarrow> bool" where
  "quiet_droplet hex d =
     (\<not> truthy (map_of (getTagMap hex d) ''install-error'')
      \<and> (isl (getCertificateFingerprint hex d) \<or> isl (getManagementApiAddress hex d)))"

fun quiet_event :: "(string option \<Rightarrow> string option) \<Rightarrow> int \<times> do_event \<Rightarrow> bool" where
  "quiet_event hex (t, TickStart) = True"
| "quiet_event hex (t, Refreshed d) = quiet_droplet hex d"
| "quiet_event hex (t, RefreshFailed) = False"
| "quiet_event hex (t, NotifyDeleted) = False"

text \<open>An evaluation of the cache at or after the deadline: a refresh that ends there.\<close>

fun past_deadline :: "int \<Rightarrow> int \<times> do_event \<Rightarrow> bool" where
  "past_deadline start (t, Refreshed d) = (TIMEOUT_MS \<le> t - start)"
| "past_deadline start (t, ev) = False"

text \<open>What one iteration of the GCP loop met: used to say how the loop can end.\<close>

definition saw_success :: "poll \<Rightarrow> bool" where
  "saw_success p =
     (case fetched p of
        Rejects \<Rightarrow> False
      | Resolves items \<Rightarrow>
          map_of (getOutlineGuestAttributes items) ''apiUrl'' \<noteq> None
          \<and> map_of (getOutlineGuestAttributes items) ''certSha256'' \<noteq> None)"

definition saw_error :: "poll \<Rightarrow> bool" where
  "saw_error p =
     (case fetched p of
        Rejects \<Rightarrow> False
      | Resolves items \<Rightarrow> map_of (getOutlineGuestAttributes items) ''install-error'' \<noteq> None)"

definition was_deleted :: "poll \<Rightarrow> bool" where
  "was_deleted p = (deleted_in_fetch p \<or> deleted_in_sleep p)"

section \<open>Lemmas on GcpServer\<close>

lemma gcp_setInstallState_fields:
  "installState (gcp_setInstallState st s) = st"
  "trusted (gcp_setInstallState st s) = trusted s"
  "managementApiUrl (gcp_setInstallState st s) = managementApiUrl s"
  "listener (gcp_setInstallState st s) = listener s"
  "notified (gcp_setInstallState st s) =
     (if listener s then notified s @ [gcp_installProgress (s\<lparr>installState := st\<rparr>)] else notified s)"
  by (simp_all add: gcp_setInstallState_def Let_def)

lemma waitOnInstall_loop_final:
  "state_num SUCCESS \<le> state_num (installState s) \<Longrightarrow> waitOnInstall_loop s ps = (s, Some Fulfilled)"
  by (cases ps) auto

lemma getOutlineGuestAttributes_None: "getOutlineGuestAttributes None = []"
  by (simp add: getOutlineGuestAttributes_def)

lemma waitOnInstall_body_empty: "waitOnInstall_body [] s = (s, None)"
  by (simp add: waitOnInstall_body_def)

lemma waitOnInstall_body_cases:
  "waitOnInstall_body attrs s = (s', r) \<Longrightarrow>
     (r = None \<and> installState s' = SUCCESS
        \<and> map_of attrs ''apiUrl'' \<noteq> None \<and> map_of attrs ''certSha256'' \<noteq> None)
   \<or> (r = Some ServerInstallFailedError \<and> installState s' = ERROR
        \<and> map_of attrs ''install-error'' \<noteq> None)
   \<or> (r = None \<and> installState s' = (if attrs \<noteq> [] \<and> state_num (installState s) < state_num BOOTED
                                        then BOOTED else installState s))"
  by (auto simp: waitOnInstall_body_def gcp_setInstallState_fields Let_def split: option.splits if_splits)

lemma waitOnInstall_loop_ends:
  "waitOnInstall_loop s ps = (s', Some out) \<Longrightarrow> state_num (installState s) < state_num SUCCESS \<Longrightarrow>
     (out = Fulfilled \<and> installState s' = SUCCESS \<and> (\<exists>p \<in> set ps. saw_success p))
   \<or> (out = Rejected ServerInstallFailedError \<and> installState s' = ERROR \<and> (\<exists>p \<in> set ps. saw_error p))
   \<or> (out = Fulfilled \<and> installState s' = DELETED \<and> (\<exists>p \<in> set ps. was_deleted p))
   \<or> (out = Rejected FetchRejected \<and> state_num (installState s') < state_num SUCCESS
        \<and> (\<exists>p \<in> set ps. fetched p = Rejects))
   \<or> (out = Rejected FetchRejected \<and> installState s' = DELETED
        \<and> (\<exists>p \<in> set ps. fetched p = Rejects \<and> deleted_in_fetch p))"
proof (induction ps arbitrary: s)
  case Nil
  then show ?case by (auto split: if_splits)
next
  case (Cons p ps)
  let ?s1 = "if deleted_in_fetch p then gcp_onDelete s else s"
  show ?case
  proof (cases "fetched p")
    case Rejects
    with Cons.prems show ?thesis
      by (auto simp: gcp_onDelete_def split: if_splits)
  next
    case (Resolves items)
    obtain s2 r where body: "waitOnInstall_body (getOutlineGuestAttributes items) ?s1 = (s2, r)"
      by (cases "waitOnInstall_body (getOutlineGuestAttributes items) ?s1")
    show ?thesis
    proof (cases r)
      case (Some e)
      with Cons.prems Resolves body waitOnInstall_body_cases[OF body]
      show ?thesis by (auto simp: saw_error_def)
    next
      case None
      let ?s3 = "if deleted_in_sleep p then gcp_onDelete s2 else s2"
      from Cons.prems Resolves body None have rest: "waitOnInstall_loop ?s3 ps = (s', Some out)"
        by (simp add: Let_def)
      show ?thesis
      proof (cases "state_num (installState ?s3) < state_num SUCCESS")
        case True
        from Cons.IH[OF rest True] show ?thesis by auto
      next
        case False
        then have fin: "state_num SUCCESS \<le> state_num (installState ?s3)" by simp
        from rest waitOnInstall_loop_final[OF fin] have eq: "s' = ?s3" "out = Fulfilled" by simp_all
        show ?thesis
        proof (cases "deleted_in_sleep p")
          case True
          with eq show ?thesis by (auto simp: gcp_onDelete_def was_deleted_def)
        next
          case nd: False
          with eq have s': "s' = s2" by simp
          from waitOnInstall_body_cases[OF body] None
          consider (succ) "installState s2 = SUCCESS"
              "map_of (getOutlineGuestAttributes items) ''apiUrl'' \<noteq> None"
              "map_of (getOutlineGuestAttributes items) ''certSha256'' \<noteq> None"
            | (keep) "installState s2 = (if getOutlineGuestAttributes items \<noteq> [] \<and> state_num (installState ?s1) < state_num BOOTED
                                        then BOOTED else installState ?s1)"
            by auto
          then show ?thesis
          proof cases
            case succ
            with eq s' Resolves show ?thesis by (auto simp: saw_success_def)
          next
            case keep
            with False nd Cons.prems(2) have "deleted_in_fetch p \<and> installState s2 = DELETED"
              by (auto simp: gcp_onDelete_def split: if_splits)
            with eq s' show ?thesis by (auto simp: was_deleted_def)
          qed
        qed
      qed
    qed
  qed
qed

lemma waitOnInstall_loop_empty_polls:
  "state_num (installState s) < state_num SUCCESS \<Longrightarrow>
     waitOnInstall_loop s (replicate n (poll_of None) @ ps) = waitOnInstall_loop s ps"
  by (induction n)
     (simp_all add: poll_of_def getOutlineGuestAttributes_None waitOnInstall_body_empty)

lemma waitOnInstall_body_order:
  "state_num (installState g) < state_num SUCCESS \<Longrightarrow>
     state_num (installState g) \<le> state_num (installState (fst (waitOnInstall_body attrs g)))"
  by (cases "installState g")
     (auto simp: waitOnInstall_body_def gcp_setInstallState_def Let_def split: option.splits)

section \<open>Lemmas on DigitalOceanServer\<close>

lemma do_setInstallState_final:
  "state_num SUCCESS \<le> state_num (installState s) \<Longrightarrow> do_setInstallState st s = s"
  by (simp add: do_setInstallState_def)

lemma do_setInstallState_fields:
  "installState (do_setInstallState st s) =
     (if state_num SUCCESS \<le> state_num (installState s) then installState s else st)"
  "trusted (do_setInstallState st s) = trusted s"
  "managementApiUrl (do_setInstallState st s) = managementApiUrl s"
  "startTimestamp (do_setInstallState st s) = startTimestamp s"
  "refreshing (do_setInstallState st s) = refreshing s"
  "dropletInfo (do_setInstallState st s) = dropletInfo s"
  "listener (do_setInstallState st s) = listener s"
  by (simp_all add: do_setInstallState_def setInstallCompleted_def Let_def)

lemma setApiUrlAndCertificate_cases:
  "setApiUrlAndCertificate h s =
     (if isl (getCertificateFingerprint h (dropletInfo s)) \<or> isl (getManagementApiAddress h (dropletInfo s))
      then (s, False)
      else (s\<lparr>trusted := trusted s @ [projr (getCertificateFingerprint h (dropletInfo s))],
              managementApiUrl := Some (projr (getManagementApiAddress h (dropletInfo s)))\<rparr>, True))"
  by (simp add: setApiUrlAndCertificate_def split: sum.splits)

lemma updateInstallState_final:
  "state_num SUCCESS \<le> state_num (installState s) \<Longrightarrow> updateInstallState h now s = s"
  by (simp add: updateInstallState_def)

lemma updateInstallState_frame:
  "startTimestamp (updateInstallState h now s) = startTimestamp s"
  "refreshing (updateInstallState h now s) = refreshing s"
  "dropletInfo (updateInstallState h now s) = dropletInfo s"
  by (simp_all add: updateInstallState_def setApiUrlAndCertificate_cases do_setInstallState_fields Let_def)

lemma do_step_final:
  "state_num SUCCESS \<le> state_num (installState s) \<Longrightarrow> installState (do_step h s e) = installState s"
  by (cases "(h, s, e)" rule: do_step.cases)
     (simp_all add: do_setInstallState_final updateInstallState_final do_onDelete_def Let_def)

lemma do_run_final:
  "state_num SUCCESS \<le> state_num (installState s) \<Longrightarrow> installState (do_run h s evs) = installState s"
  unfolding do_run_def
  by (induction evs arbitrary: s) (simp_all add: do_step_final)

lemma do_step_startTimestamp:
  "startTimestamp (do_step h s e) = startTimestamp s"
  by (cases "(h, s, e)" rule: do_step.cases)
     (simp_all add: do_setInstallState_fields updateInstallState_frame do_onDelete_def Let_def)

lemma do_step_refreshing:
  "\<not> refreshing s \<Longrightarrow> \<not> refreshing (do_step h s e)"
  by (cases "(h, s, e)" rule: do_step.cases)
     (simp_all add: do_setInstallState_fields updateInstallState_frame do_onDelete_def Let_def)

lemma do_run_refreshing:
  "\<not> refreshing s \<Longrightarrow> \<not> refreshing (do_run h s evs)"
  unfolding do_run_def
  by (induction evs arbitrary: s) (simp_all add: do_step_refreshing)

lemma do_waitOnInstall_tick_simps:
  "installState s = ERROR \<Longrightarrow> do_waitOnInstall_tick s = Settle (Rejected ServerInstallFailedError)"
  "installState s = DELETED \<Longrightarrow> do_waitOnInstall_tick s = Settle (Rejected DeletedServerError)"
  "installState s = SUCCESS \<Longrightarrow> do_waitOnInstall_tick s = Settle Fulfilled"
  "state_num (installState s) < state_num SUCCESS \<Longrightarrow> do_waitOnInstall_tick s = Wait"
  by (simp_all add: do_waitOnInstall_tick_def)

lemma setApiUrlAndCertificate_on_tags:
  "setApiUrlAndCertificate h s = setApiUrlAndCertificate_on (getTagMap h (dropletInfo s)) s"
  by (simp add: setApiUrlAndCertificate_def setApiUrlAndCertificate_on_def
      getCertificateFingerprint_def getManagementApiAddress_def split: sum.splits)

lemma updateInstallState_on_tags:
  "updateInstallState h now s = updateInstallState_on (getTagMap h (dropletInfo s)) now s"
  by (simp add: updateInstallState_def updateInstallState_on_def setApiUrlAndCertificate_on_tags
      Let_def)

lemma setApiUrlAndCertificate_on_cases:
  "setApiUrlAndCertificate_on tagMap s =
     (if isl (certificateFingerprint_of tagMap)
         \<or> isl (apiAddress_of tagMap (ipv4Address (dropletInfo s)))
      then (s, False)
      else (s\<lparr>trusted := trusted s @ [projr (certificateFingerprint_of tagMap)],
              managementApiUrl := Some (projr (apiAddress_of tagMap (ipv4Address (dropletInfo s))))\<rparr>,
            True))"
  by (simp add: setApiUrlAndCertificate_on_def split: sum.splits)

lemma quiet_updateInstallState:
  assumes "state_num (installState s) < state_num SUCCESS" and "quiet_droplet h (dropletInfo s)"
  shows "installState (updateInstallState h now s) =
           (if TIMEOUT_MS \<le> now - startTimestamp s then ERROR
            else if getTagMap h (dropletInfo s) \<noteq> [] then BOOTED
            else if status (dropletInfo s) = ''active'' then CREATED
            else installState s)"
  using assms
  by (auto simp: updateInstallState_def setApiUrlAndCertificate_cases do_setInstallState_fields
      quiet_droplet_def Let_def)

lemma quiet_step:
  assumes "state_num (installState s) < state_num SUCCESS" and "quiet_event h e"
  shows "(state_num SUCCESS \<le> state_num (installState (do_step h s e))) = past_deadline (startTimestamp s) e"
    and "past_deadline (startTimestamp s) e \<Longrightarrow> installState (do_step h s e) = ERROR"
  using assms
  by (cases "(h, s, e)" rule: do_step.cases;
      cases "installState s";
      simp add: quiet_updateInstallState Let_def)+

lemma quiet_run:
  assumes "state_num (installState s) < state_num SUCCESS" and "\<forall>e \<in> set evs. quiet_event h e"
  shows "(state_num SUCCESS \<le> state_num (installState (do_run h s evs)))
            = (\<exists>e \<in> set evs. past_deadline (startTimestamp s) e)
       \<and> ((\<exists>e \<in> set evs. past_deadline (startTimestamp s) e) \<longrightarrow> installState (do_run h s evs) = ERROR)"
  using assms
proof (induction evs arbitrary: s)
  case Nil
  then show ?case by (simp add: do_run_def)
next
  case (Cons e evs)
  have run: "do_run h s (e # evs) = do_run h (do_step h s e) evs" by (simp add: do_run_def)
  from Cons.prems have q: "quiet_event h e" and qs: "\<forall>e \<in> set evs. quiet_event h e" by simp_all
  show ?case
  proof (cases "past_deadline (startTimestamp s) e")
    case True
    from quiet_step(2)[OF Cons.prems(1) q True] have "installState (do_step h s e) = ERROR" .
    then have "installState (do_run h (do_step h s e) evs) = ERROR"
      using do_run_final[of "do_step h s e" h evs] by simp
    with True run show ?thesis by simp
  next
    case False
    with quiet_step(1)[OF Cons.prems(1) q]
    have nf: "state_num (installState (do_step h s e)) < state_num SUCCESS" by simp
    from Cons.IH[OF nf qs] False run show ?thesis
      by (simp add: do_step_startTimestamp)
  qed
qed

lemma do_step_order:
  assumes "state_num (installState s) < state_num SUCCESS"
  shows "state_num (installState s) \<le> state_num (installState (do_step h s e))
       \<or> (installState s = BOOTED \<and> installState (do_step h s e) = CREATED)"
  using assms
  by (cases "(h, s, e)" rule: do_step.cases; cases "installState s")
     (auto simp: updateInstallState_def setApiUrlAndCertificate_cases do_setInstallState_fields
        do_onDelete_def Let_def)

lemma startTimestamp_new:
  "startTimestamp (DigitalOceanServer_new h session d storage start now) = start"
  by (simp add: DigitalOceanServer_new_def pollInstallState_def updateInstallState_frame Let_def)

lemma do_run_startTimestamp: "startTimestamp (do_run h s evs) = startTimestamp s"
  unfolding do_run_def
  by (induction evs arbitrary: s) (simp_all add: do_step_startTimestamp)

section \<open>Claims\<close>

subsection \<open>C1: order of the states\<close>

text \<open>
  Claim C1, as the code has it. In \<^verbatim>\<open>DigitalOceanServer\<close> a final state (SUCCESS, ERROR,
  DELETED) survives every later event: a refresh that succeeds or fails, an evaluation at
  any time, the delete callback; so DELETED does not replace ERROR there. From a state
  below SUCCESS the delete callback gives DELETED, and one event never lowers the state
  except from BOOTED to CREATED. In \<^verbatim>\<open>GcpServer\<close> one pass of the loop body never lowers a
  state below SUCCESS, and the delete callback gives DELETED.
\<close>

theorem final_states_are_kept:
  fixes hex :: "string option \<Rightarrow> string option"
  shows "(state_num SUCCESS \<le> state_num (installState s) \<longrightarrow>
            installState (do_run hex s evs) = installState s)
    \<and> (state_num (installState s) < state_num SUCCESS \<longrightarrow>
          installState (do_onDelete s) = DELETED
        \<and> (state_num (installState s) \<le> state_num (installState (do_step hex s e))
            \<or> installState s = BOOTED \<and> installState (do_step hex s e) = CREATED))
    \<and> (state_num (installState g) < state_num SUCCESS \<longrightarrow>
          state_num (installState g) \<le> state_num (installState (fst (waitOnInstall_body attrs g))))
    \<and> installState (gcp_onDelete g) = DELETED"
  using do_run_final[of s hex evs] do_step_order[of s hex e] waitOnInstall_body_order[of g attrs]
  by (auto simp: do_onDelete_def do_setInstallState_fields gcp_onDelete_def)

text \<open>
  The theorem at a server that failed on its first refresh: the refresh that arrives later
  with the tags of a finished installation, and the delete callback, leave it in ERROR.
\<close>

theorem final_states_are_kept_witness:
  "installState (do_run hexToString (do_step hexToString (do_server []) (3200, RefreshFailed))
                   [(6200, Refreshed (droplet ready_tags)), (7000, NotifyDeleted)])
     = installState (do_step hexToString (do_server []) (3200, RefreshFailed))"
proof -
  have "state_num SUCCESS
          \<le> state_num (installState (do_step hexToString (do_server []) (3200, RefreshFailed)))"
    by code_simp
  with final_states_are_kept
         [of "do_step hexToString (do_server []) (3200, RefreshFailed)" hexToString
             "[(6200, Refreshed (droplet ready_tags)), (7000, NotifyDeleted)]"]
  show ?thesis by blast
qed

text \<open>
  Against C1 as stated. A DigitalOcean server in BOOTED whose next refresh brings no tags
  goes back to CREATED; a GCP server in ERROR becomes DELETED at the delete callback; a
  GCP server in DELETED becomes SUCCESS when the attributes fetched meanwhile arrive.
\<close>

theorem monotonicity_counterexample:
  "installState (do_server [''kv:foo:626172'']) = BOOTED
   \<and> installState (do_step hexToString (do_server [''kv:foo:626172''])
                      (3200, Refreshed (droplet []))) = CREATED
   \<and> state_num CREATED < state_num BOOTED
   \<and> installState (fst (waitOnInstall_body failed_items gcp_created)) = ERROR
   \<and> installState (gcp_onDelete (fst (waitOnInstall_body failed_items gcp_created))) = DELETED
   \<and> installState (gcp_onDelete gcp_created) = DELETED
   \<and> installState (fst (waitOnInstall_body ready_items (gcp_onDelete gcp_created))) = SUCCESS"
  by code_simp

subsection \<open>C2: deletion and a pending error\<close>

text \<open>
  Claim C2, as the code has it, for \<^verbatim>\<open>DigitalOceanServer\<close>. When the delete callback runs
  in a state below SUCCESS, the state is DELETED and stays DELETED whatever arrives
  afterwards (a failed refresh, an error tag, the timeout), and the check of
  \<^verbatim>\<open>waitOnInstall\<close> rejects with \<^verbatim>\<open>DeletedServerError\<close>, not with
  \<^verbatim>\<open>ServerInstallFailedError\<close>.
\<close>

theorem deletion_wins_before_error:
  fixes hex :: "string option \<Rightarrow> string option"
  assumes "state_num (installState s) < state_num SUCCESS"
  shows "installState (do_onDelete s) = DELETED
       \<and> installState (do_run hex s ((t, NotifyDeleted) # evs)) = DELETED
       \<and> do_waitOnInstall_tick (do_run hex s ((t, NotifyDeleted) # evs))
            = Settle (Rejected DeletedServerError)
       \<and> do_waitOnInstall_tick (do_run hex s ((t, NotifyDeleted) # evs))
            \<noteq> Settle (Rejected ServerInstallFailedError)"
proof -
  from assms have d: "installState (do_onDelete s) = DELETED"
    by (simp add: do_onDelete_def do_setInstallState_fields)
  have "do_run hex s ((t, NotifyDeleted) # evs) = do_run hex (do_onDelete s) evs"
    by (simp add: do_run_def)
  moreover from d have "installState (do_run hex (do_onDelete s) evs) = DELETED"
    using do_run_final[of "do_onDelete s" hex evs] by simp
  ultimately show ?thesis using d
    by (simp add: do_waitOnInstall_tick_simps)
qed

text \<open>
  The theorem at a server deleted while its refresh is in flight: the refresh then fails,
  and the promise still rejects with \<^verbatim>\<open>DeletedServerError\<close>.
\<close>

theorem deletion_wins_before_error_witness:
  "do_waitOnInstall_tick
     (do_run hexToString (do_server []) [(3100, NotifyDeleted), (3200, RefreshFailed)])
     = Settle (Rejected DeletedServerError)"
proof -
  have "state_num (installState (do_server [])) < state_num SUCCESS"
    by code_simp
  from deletion_wins_before_error [OF this, of hexToString 3100 "[(3200, RefreshFailed)]"]
  show ?thesis by blast
qed

text \<open>
  Against C2 as stated, in \<^verbatim>\<open>GcpServer\<close>. The delete callback runs while the fetch that
  will bring \<^verbatim>\<open>install-error\<close> is awaited: the state ends in ERROR and the promise rejects
  with \<^verbatim>\<open>ServerInstallFailedError\<close>. The delete callback runs during the sleep: the state
  is DELETED and the promise is fulfilled.
\<close>

theorem deletion_precedence_counterexample:
  "gcp_waitOnInstall (Resolves ()) [deleted_while_fetching (Some failed_items)] gcp_fresh
     = (gcp_setInstallState ERROR (gcp_onDelete gcp_created),
        Some (Rejected ServerInstallFailedError))
   \<and> installState (gcp_setInstallState ERROR (gcp_onDelete gcp_created)) = ERROR
   \<and> gcp_waitOnInstall (Resolves ()) [deleted_while_sleeping None] gcp_fresh
     = (gcp_onDelete gcp_created, Some Fulfilled)
   \<and> installState (gcp_onDelete gcp_created) = DELETED"
  by code_simp

subsection \<open>C3: the rules of the direct poll\<close>

text \<open>
  Claim C3. \<^verbatim>\<open>GcpServer.waitOnInstall\<close> sets CREATED once \<^verbatim>\<open>completion\<close> has resolved. Then
  take an iteration that starts below SUCCESS and fetches \<open>attrs\<close>; \<open>s1\<close> is the server
  when the snapshot arrives. A non-empty snapshot met below BOOTED takes the state to
  BOOTED or beyond, and the listener hears 0.8 next. With both \<^verbatim>\<open>apiUrl\<close> and
  \<^verbatim>\<open>certSha256\<close> the fingerprint is trusted, the URL recorded, the state set to SUCCESS
  and the loop ends, its promise fulfilled. Otherwise, with \<^verbatim>\<open>install-error\<close>, the state
  is ERROR and the loop ends, its promise rejected with \<^verbatim>\<open>ServerInstallFailedError\<close>.
  Otherwise the loop goes on to its next test with nothing trusted or recorded, and,
  unless the delete callback ran meanwhile, in a state still below SUCCESS, so that it
  fetches again.
\<close>

theorem gcp_waitOnInstall_rules:
  assumes "state_num (installState s) < state_num SUCCESS"
    and "fetched p = Resolves items"
    and "attrs = getOutlineGuestAttributes items"
    and "s1 = (if deleted_in_fetch p then gcp_onDelete s else s)"
  shows "(gcp_waitOnInstall (Resolves ()) qs s0 =
            waitOnInstall_loop (gcp_setInstallState CREATED s0) qs
          \<and> installState (gcp_setInstallState CREATED s0) = CREATED)
    \<and> (attrs \<noteq> [] \<and> state_num (installState s1) < state_num BOOTED
        \<longrightarrow> state_num BOOTED \<le> state_num (installState (fst (waitOnInstall_body attrs s1)))
            \<and> (listener s1 \<longrightarrow>
                 take (Suc (length (notified s1))) (notified (fst (waitOnInstall_body attrs s1)))
                   = notified s1 @ [8 / 10]))
    \<and> (map_of attrs ''apiUrl'' = Some apiUrl \<and> map_of attrs ''certSha256'' = Some cert
        \<longrightarrow> installState (fst (waitOnInstall_body attrs s1)) = SUCCESS
            \<and> (\<exists>s'. waitOnInstall_loop s (p # ps) = (s', Some Fulfilled)
                 \<and> installState s' = (if deleted_in_sleep p then DELETED else SUCCESS)
                 \<and> trusted s' = trusted s @ [Given cert]
                 \<and> managementApiUrl s' = Some apiUrl))
    \<and> ((map_of attrs ''apiUrl'' = None \<or> map_of attrs ''certSha256'' = None)
          \<and> map_of attrs ''install-error'' \<noteq> None
        \<longrightarrow> (\<exists>s'. waitOnInstall_loop s (p # ps) = (s', Some (Rejected ServerInstallFailedError))
               \<and> installState s' = ERROR))
    \<and> ((map_of attrs ''apiUrl'' = None \<or> map_of attrs ''certSha256'' = None)
          \<and> map_of attrs ''install-error'' = None
        \<longrightarrow> (\<exists>s'. waitOnInstall_loop s (p # ps) = waitOnInstall_loop s' ps
               \<and> installState s' =
                   (if deleted_in_fetch p \<or> deleted_in_sleep p then DELETED
                    else if attrs \<noteq> [] \<and> state_num (installState s) < state_num BOOTED then BOOTED
                    else installState s)
               \<and> (\<not> deleted_in_fetch p \<and> \<not> deleted_in_sleep p
                    \<longrightarrow> state_num (installState s') < state_num SUCCESS)
               \<and> trusted s' = trusted s \<and> managementApiUrl s' = managementApiUrl s))"
proof -
  let ?s2 = "fst (waitOnInstall_body attrs s1)"
  let ?s3 = "if deleted_in_sleep p then gcp_onDelete ?s2 else ?s2"
  have first: "gcp_waitOnInstall (Resolves ()) qs s0 =
            waitOnInstall_loop (gcp_setInstallState CREATED s0) qs
          \<and> installState (gcp_setInstallState CREATED s0) = CREATED"
    by (simp add: gcp_waitOnInstall_def gcp_setInstallState_fields)
  have booted: "attrs \<noteq> [] \<and> state_num (installState s1) < state_num BOOTED
        \<longrightarrow> state_num BOOTED \<le> state_num (installState ?s2)
            \<and> (listener s1 \<longrightarrow>
                 take (Suc (length (notified s1))) (notified ?s2) = notified s1 @ [8 / 10])"
    by (auto simp: waitOnInstall_body_def gcp_setInstallState_fields gcp_installProgress_def
        Let_def split: option.splits)
  have success: "map_of attrs ''apiUrl'' = Some apiUrl \<and> map_of attrs ''certSha256'' = Some cert
        \<longrightarrow> installState ?s2 = SUCCESS
            \<and> (\<exists>s'. waitOnInstall_loop s (p # ps) = (s', Some Fulfilled)
                 \<and> installState s' = (if deleted_in_sleep p then DELETED else SUCCESS)
                 \<and> trusted s' = trusted s @ [Given cert]
                 \<and> managementApiUrl s' = Some apiUrl)"
    using assms
    by (auto simp: waitOnInstall_body_def gcp_setInstallState_fields waitOnInstall_loop_final
        gcp_onDelete_def Let_def)
  have failure: "(map_of attrs ''apiUrl'' = None \<or> map_of attrs ''certSha256'' = None)
          \<and> map_of attrs ''install-error'' \<noteq> None
        \<longrightarrow> (\<exists>s'. waitOnInstall_loop s (p # ps) = (s', Some (Rejected ServerInstallFailedError))
               \<and> installState s' = ERROR)"
    using assms
    by (auto simp: waitOnInstall_body_def gcp_setInstallState_fields Let_def split: option.splits)
  have continue: "(map_of attrs ''apiUrl'' = None \<or> map_of attrs ''certSha256'' = None)
          \<and> map_of attrs ''install-error'' = None
        \<longrightarrow> waitOnInstall_loop s (p # ps) = waitOnInstall_loop ?s3 ps
               \<and> installState ?s3 =
                   (if deleted_in_fetch p \<or> deleted_in_sleep p then DELETED
                    else if attrs \<noteq> [] \<and> state_num (installState s) < state_num BOOTED then BOOTED
                    else installState s)
               \<and> (\<not> deleted_in_fetch p \<and> \<not> deleted_in_sleep p
                    \<longrightarrow> state_num (installState ?s3) < state_num SUCCESS)
               \<and> trusted ?s3 = trusted s \<and> managementApiUrl ?s3 = managementApiUrl s"
    using assms
    by (auto simp: waitOnInstall_body_def gcp_setInstallState_fields gcp_onDelete_def Let_def
        split: option.splits)
  from first booted success failure continue show ?thesis by blast
qed

text \<open>The theorem at a server in CREATED whose first fetch brings both attributes.\<close>

theorem gcp_waitOnInstall_rules_witness:
  "\<exists>s'. waitOnInstall_loop gcp_created [poll_of (Some ready_items)] = (s', Some Fulfilled)
         \<and> installState s' = SUCCESS
         \<and> trusted s' = trusted gcp_created @ [Given ''ABCD'']
         \<and> managementApiUrl s' = Some ''https://1.2.3.4:8080/x''"
proof -
  have a: "state_num (installState gcp_created) < state_num SUCCESS"
    by code_simp
  have b: "fetched (poll_of (Some ready_items)) = Resolves (Some ready_items)"
    and d: "\<not> deleted_in_sleep (poll_of (Some ready_items))"
    by (simp_all add: poll_of_def)
  have e: "map_of (getOutlineGuestAttributes (Some ready_items)) ''apiUrl''
             = Some ''https://1.2.3.4:8080/x''
         \<and> map_of (getOutlineGuestAttributes (Some ready_items)) ''certSha256'' = Some ''ABCD''"
    by code_simp
  from gcp_waitOnInstall_rules [where apiUrl = "''https://1.2.3.4:8080/x''"
      and cert = "''ABCD''" and ps = "[]", OF a b refl refl] e
  have "\<exists>s'. waitOnInstall_loop gcp_created [poll_of (Some ready_items)] = (s', Some Fulfilled)
         \<and> installState s' = (if deleted_in_sleep (poll_of (Some ready_items)) then DELETED else SUCCESS)
         \<and> trusted s' = trusted gcp_created @ [Given ''ABCD'']
         \<and> managementApiUrl s' = Some ''https://1.2.3.4:8080/x''"
    by blast
  with d show ?thesis by simp
qed

subsection \<open>C4: the rules of the cached refresh\<close>

text \<open>
  Claim C4, as the code has it. \<^verbatim>\<open>updateInstallState\<close> evaluates the tag map of the cached
  droplet, and on every tag map it leaves a final state alone and, below SUCCESS, applies
  the first rule that fits, in this order: an \<^verbatim>\<open>install-error\<close> key with a non-empty value
  gives ERROR; else a clock at or past \<^verbatim>\<open>startTimestamp + TIMEOUT_MS\<close> gives ERROR; else a
  fingerprint and an address that both resolve are trusted and recorded, and the state is
  SUCCESS; else a tag map that is not empty gives BOOTED; else the status \<^verbatim>\<open>active\<close> gives
  CREATED; else nothing changes. (An \<^verbatim>\<open>install-error\<close> key with the empty value is no error
  for the first rule.)
\<close>

theorem updateInstallState_priority:
  fixes hex :: "string option \<Rightarrow> string option"
  assumes "s' = updateInstallState_on tagMap now s"
  shows "(state_num SUCCESS \<le> state_num (installState s) \<longrightarrow> s' = s)
    \<and> (state_num (installState s) < state_num SUCCESS \<longrightarrow>
         (truthy (map_of tagMap ''install-error'') \<longrightarrow>
            installState s' = ERROR \<and> trusted s' = trusted s \<and> managementApiUrl s' = managementApiUrl s)
       \<and> (\<not> truthy (map_of tagMap ''install-error'') \<longrightarrow>
           (TIMEOUT_MS \<le> now - startTimestamp s \<longrightarrow>
              installState s' = ERROR \<and> trusted s' = trusted s \<and> managementApiUrl s' = managementApiUrl s)
         \<and> (now - startTimestamp s < TIMEOUT_MS \<longrightarrow>
             (certificateFingerprint_of tagMap = Inr fingerprint
                \<and> apiAddress_of tagMap (ipv4Address (dropletInfo s)) = Inr apiAddress \<longrightarrow>
                installState s' = SUCCESS \<and> trusted s' = trusted s @ [fingerprint]
                \<and> managementApiUrl s' = Some apiAddress)
           \<and> (isl (certificateFingerprint_of tagMap)
                \<or> isl (apiAddress_of tagMap (ipv4Address (dropletInfo s))) \<longrightarrow>
                trusted s' = trusted s \<and> managementApiUrl s' = managementApiUrl s
                \<and> (tagMap \<noteq> [] \<longrightarrow> installState s' = BOOTED)
                \<and> (tagMap = [] \<and> status (dropletInfo s) = ''active'' \<longrightarrow> installState s' = CREATED)
                \<and> (tagMap = [] \<and> status (dropletInfo s) \<noteq> ''active'' \<longrightarrow> s' = s)))))
    \<and> updateInstallState hex now s = updateInstallState_on (getTagMap hex (dropletInfo s)) now s
    \<and> getCertificateFingerprint hex d = certificateFingerprint_of (getTagMap hex d)
    \<and> getManagementApiAddress hex d = apiAddress_of (getTagMap hex d) (ipv4Address d)"
proof -
  have rules: "(state_num SUCCESS \<le> state_num (installState s) \<longrightarrow> s' = s)
    \<and> (state_num (installState s) < state_num SUCCESS \<longrightarrow>
         (truthy (map_of tagMap ''install-error'') \<longrightarrow>
            installState s' = ERROR \<and> trusted s' = trusted s \<and> managementApiUrl s' = managementApiUrl s)
       \<and> (\<not> truthy (map_of tagMap ''install-error'') \<longrightarrow>
           (TIMEOUT_MS \<le> now - startTimestamp s \<longrightarrow>
              installState s' = ERROR \<and> trusted s' = trusted s \<and> managementApiUrl s' = managementApiUrl s)
         \<and> (now - startTimestamp s < TIMEOUT_MS \<longrightarrow>
             (certificateFingerprint_of tagMap = Inr fingerprint
                \<and> apiAddress_of tagMap (ipv4Address (dropletInfo s)) = Inr apiAddress \<longrightarrow>
                installState s' = SUCCESS \<and> trusted s' = trusted s @ [fingerprint]
                \<and> managementApiUrl s' = Some apiAddress)
           \<and> (isl (certificateFingerprint_of tagMap)
                \<or> isl (apiAddress_of tagMap (ipv4Address (dropletInfo s))) \<longrightarrow>
                trusted s' = trusted s \<and> managementApiUrl s' = managementApiUrl s
                \<and> (tagMap \<noteq> [] \<longrightarrow> installState s' = BOOTED)
                \<and> (tagMap = [] \<and> status (dropletInfo s) = ''active'' \<longrightarrow> installState s' = CREATED)
                \<and> (tagMap = [] \<and> status (dropletInfo s) \<noteq> ''active'' \<longrightarrow> s' = s)))))"
    using assms
    by (auto simp: updateInstallState_on_def setApiUrlAndCertificate_on_cases
        do_setInstallState_fields do_setInstallState_final)
  have links: "updateInstallState hex now s = updateInstallState_on (getTagMap hex (dropletInfo s)) now s
    \<and> getCertificateFingerprint hex d = certificateFingerprint_of (getTagMap hex d)
    \<and> getManagementApiAddress hex d = apiAddress_of (getTagMap hex d) (ipv4Address d)"
    by (simp add: updateInstallState_on_tags getCertificateFingerprint_def
        getManagementApiAddress_def)
  from rules links show ?thesis by blast
qed

text \<open>
  The theorem at a waiting server, 3 seconds after the start: a refresh that brought the
  tags of a finished installation gives SUCCESS, and one that brought the single tag
  \<^verbatim>\<open>kv:__proto__:41\<close>, which leaves the tag map empty, gives CREATED.
\<close>

theorem updateInstallState_priority_witness:
  "installState (updateInstallState hexToString 3000 (refreshed_server ready_tags)) = SUCCESS
   \<and> trusted (updateInstallState hexToString 3000 (refreshed_server ready_tags))
       = trusted (refreshed_server ready_tags) @ [Btoa ''ABCD'']
   \<and> managementApiUrl (updateInstallState hexToString 3000 (refreshed_server ready_tags))
       = Some ''https://x/''
   \<and> installState (updateInstallState hexToString 3000 (refreshed_server [''kv:__proto__:41'']))
       = CREATED"
proof -
  let ?s = "refreshed_server ready_tags"
  let ?m = "getTagMap hexToString (dropletInfo ?s)"
  let ?p = "refreshed_server [''kv:__proto__:41'']"
  let ?e = "getTagMap hexToString (dropletInfo ?p)"
  have a: "state_num (installState ?s) < state_num SUCCESS"
    and b: "\<not> truthy (map_of ?m ''install-error'')"
    and c: "3000 - startTimestamp ?s < TIMEOUT_MS"
    and d: "certificateFingerprint_of ?m = Inr (Btoa ''ABCD'')
         \<and> apiAddress_of ?m (ipv4Address (dropletInfo ?s)) = Inr ''https://x/''"
    by code_simp+
  have a': "state_num (installState ?p) < state_num SUCCESS"
    and b': "\<not> truthy (map_of ?e ''install-error'')"
    and c': "3000 - startTimestamp ?p < TIMEOUT_MS"
    and d': "isl (certificateFingerprint_of ?e)"
    and e': "?e = [] \<and> status (dropletInfo ?p) = ''active''"
    by code_simp+
  from updateInstallState_priority [OF refl, where tagMap = ?m and s = ?s and now = 3000
      and hex = hexToString and fingerprint = "Btoa ''ABCD''" and apiAddress = "''https://x/''"]
    a b c d
  have ready: "installState (updateInstallState hexToString 3000 ?s) = SUCCESS
     \<and> trusted (updateInstallState hexToString 3000 ?s) = trusted ?s @ [Btoa ''ABCD'']
     \<and> managementApiUrl (updateInstallState hexToString 3000 ?s) = Some ''https://x/''"
    by metis
  from updateInstallState_priority [OF refl, where tagMap = ?e and s = ?p and now = 3000
      and hex = hexToString] a' b' c' d' e'
  have "installState (updateInstallState hexToString 3000 ?p) = CREATED"
    by metis
  with ready show ?thesis by blast
qed

text \<open>
  Against C4 as stated. The tag map holds the error key, with the empty value, and the
  evaluation, 3 seconds after the start, does not give ERROR: it goes on to the rule of the
  non-empty tag map, BOOTED. The tag \<^verbatim>\<open>kv:install-error:\<close> gives that tag map.
\<close>

theorem empty_error_tag_counterexample:
  "map_of [(''install-error'', '''' :: string)] ''install-error'' = Some ''''
   \<and> installState (refreshed_server [''kv:install-error:'']) = CREATED
   \<and> installState (updateInstallState_on [(''install-error'', '''')] 3000
                      (refreshed_server [''kv:install-error:''])) = BOOTED
   \<and> getTagMap hexToString (droplet [''kv:install-error:'']) = [(''install-error'', '''')]
   \<and> installState (updateInstallState hexToString 3000 (refreshed_server [''kv:install-error:'']))
       = BOOTED"
  by code_simp

subsection \<open>C5: the timeout\<close>

text \<open>
  Claim C5, as the code has it. Take a server below SUCCESS and events that are starts of
  ticks or refreshes that succeed with a droplet showing neither an error tag nor a
  resolvable fingerprint and address. Then the check of \<^verbatim>\<open>waitOnInstall\<close> rejects with
  \<^verbatim>\<open>ServerInstallFailedError\<close> exactly when one of the refreshes ended at or after
  \<^verbatim>\<open>startTimestamp + TIMEOUT_MS\<close>, and keeps waiting otherwise, however many refreshes there
  were. \<^verbatim>\<open>startTimestamp\<close> is the time read at construction and never changes. A refresh
  that fails gives ERROR at once, whatever the time.
\<close>

theorem timeout_from_construction:
  fixes hex :: "string option \<Rightarrow> string option"
  assumes "state_num (installState s) < state_num SUCCESS"
    and "\<forall>e \<in> set evs. quiet_event hex e"
  shows "(do_waitOnInstall_tick (do_run hex s evs) = Settle (Rejected ServerInstallFailedError))
            = (\<exists>e \<in> set evs. past_deadline (startTimestamp s) e)
       \<and> (do_waitOnInstall_tick (do_run hex s evs) = Wait)
            = (\<not> (\<exists>e \<in> set evs. past_deadline (startTimestamp s) e))
       \<and> startTimestamp (do_run hex s evs) = startTimestamp s
       \<and> startTimestamp (DigitalOceanServer_new hex session d storage start now) = start
       \<and> installState (do_step hex s (t, RefreshFailed)) = ERROR"
proof -
  note q = quiet_run[OF assms]
  show ?thesis
  proof (cases "\<exists>e \<in> set evs. past_deadline (startTimestamp s) e")
    case True
    with q have "installState (do_run hex s evs) = ERROR" by simp
    with True assms(1) show ?thesis
      by (simp add: do_waitOnInstall_tick_def do_run_startTimestamp startTimestamp_new
          do_setInstallState_fields)
  next
    case False
    with q have "state_num (installState (do_run hex s evs)) < state_num SUCCESS" by auto
    with False assms(1) show ?thesis
      by (simp add: do_waitOnInstall_tick_def do_run_startTimestamp startTimestamp_new
          do_setInstallState_fields)
  qed
qed

text \<open>
  The theorem at a server built at time 0 on a droplet with no tags, refreshed with no
  tags after 3 seconds and again after 5 minutes.
\<close>

theorem timeout_from_construction_witness:
  "do_waitOnInstall_tick (do_run hexToString (do_server []) idle_events)
     = Settle (Rejected ServerInstallFailedError)
   \<and> do_waitOnInstall_tick (do_run hexToString (do_server []) (take 2 idle_events)) = Wait"
proof -
  have a: "state_num (installState (do_server [])) < state_num SUCCESS"
    by code_simp
  have b: "\<forall>e \<in> set idle_events. quiet_event hexToString e"
    by code_simp
  have b': "\<forall>e \<in> set (take 2 idle_events). quiet_event hexToString e"
    by code_simp
  have c: "\<exists>e \<in> set idle_events. past_deadline (startTimestamp (do_server [])) e"
    by code_simp
  have c': "\<not> (\<exists>e \<in> set (take 2 idle_events). past_deadline (startTimestamp (do_server [])) e)"
    by code_simp
  from timeout_from_construction [OF a b] c timeout_from_construction [OF a b'] c'
  show ?thesis by blast
qed

text \<open>
  Against C5 as stated. The first refresh of a server fails 3.2 seconds after the start;
  no tag was ever seen and no refresh ever succeeded, yet the next check of
  \<^verbatim>\<open>waitOnInstall\<close> rejects with \<^verbatim>\<open>ServerInstallFailedError\<close>, long before the 5 minutes.
  And a server whose refreshes are started but never come back is still waiting after 10
  minutes: the deadline is tested only after a refresh that succeeded.
\<close>

theorem early_failure_counterexample:
  "do_waitOnInstall_tick (do_server []) = Wait
   \<and> do_waitOnInstall_tick
       (do_run hexToString (do_server []) [(3000, TickStart), (3200, RefreshFailed)])
       = Settle (Rejected ServerInstallFailedError)
   \<and> 3200 - startTimestamp (do_server []) < TIMEOUT_MS
   \<and> do_waitOnInstall_tick
       (do_run hexToString (do_server []) [(3000, TickStart), (600000, TickStart)]) = Wait
   \<and> TIMEOUT_MS \<le> 600000 - startTimestamp (do_server [])"
  by code_simp

subsection \<open>C6: a fetch that fails in the direct poll\<close>

text \<open>
  Claim C6, as the code has it. The loop of \<^verbatim>\<open>GcpServer.waitOnInstall\<close> has no timeout: any
  number of fetches that bring nothing leaves it polling, in the same state. A fetch that
  resolves with no response or no items changes nothing and the loop polls again. A fetch
  whose promise rejects is not caught: the state stays as it is (it does not become
  ERROR), but the loop ends and \<^verbatim>\<open>waitOnInstall\<close> rejects with that error. A loop that
  starts below SUCCESS ends in one of these ways only: fulfilled in SUCCESS after a fetch
  that showed both attributes; rejected with \<^verbatim>\<open>ServerInstallFailedError\<close> in ERROR after a
  fetch that showed \<^verbatim>\<open>install-error\<close>; fulfilled in DELETED after the delete callback;
  rejected by a fetch that rejected.
\<close>

theorem fetch_failure_in_direct_poll:
  assumes "state_num (installState s) < state_num SUCCESS"
  shows "waitOnInstall_loop s (replicate n (poll_of None)) = (s, None)
    \<and> (fetched p = Resolves None \<and> \<not> deleted_in_fetch p \<and> \<not> deleted_in_sleep p \<longrightarrow>
          waitOnInstall_loop s (p # ps) = waitOnInstall_loop s ps)
    \<and> (fetched p = Rejects \<and> \<not> deleted_in_fetch p \<longrightarrow>
          waitOnInstall_loop s (p # ps) = (s, Some (Rejected FetchRejected)))
    \<and> (waitOnInstall_loop s qs = (s', Some out) \<longrightarrow>
          (out = Fulfilled \<and> installState s' = SUCCESS \<and> (\<exists>q \<in> set qs. saw_success q))
        \<or> (out = Rejected ServerInstallFailedError \<and> installState s' = ERROR
              \<and> (\<exists>q \<in> set qs. saw_error q))
        \<or> (out = Fulfilled \<and> installState s' = DELETED \<and> (\<exists>q \<in> set qs. was_deleted q))
        \<or> (out = Rejected FetchRejected \<and> state_num (installState s') < state_num SUCCESS
              \<and> (\<exists>q \<in> set qs. fetched q = Rejects))
        \<or> (out = Rejected FetchRejected \<and> installState s' = DELETED
              \<and> (\<exists>q \<in> set qs. fetched q = Rejects \<and> deleted_in_fetch q)))"
proof -
  from assms waitOnInstall_loop_empty_polls[OF assms, of n "[]"]
  have "waitOnInstall_loop s (replicate n (poll_of None)) = (s, None)"
    by simp
  moreover from assms have "fetched p = Resolves None \<and> \<not> deleted_in_fetch p \<and> \<not> deleted_in_sleep p \<longrightarrow>
          waitOnInstall_loop s (p # ps) = waitOnInstall_loop s ps"
    by (simp add: getOutlineGuestAttributes_None waitOnInstall_body_empty)
  moreover from assms have "fetched p = Rejects \<and> \<not> deleted_in_fetch p \<longrightarrow>
          waitOnInstall_loop s (p # ps) = (s, Some (Rejected FetchRejected))"
    by simp
  ultimately show ?thesis
    using waitOnInstall_loop_ends[of s qs s' out, OF _ assms] by blast
qed

text \<open>
  The theorem at a server in CREATED: after five fetches that bring nothing it is still
  polling, in CREATED.
\<close>

theorem fetch_failure_in_direct_poll_witness:
  "waitOnInstall_loop gcp_created (replicate 5 (poll_of None)) = (gcp_created, None)"
proof -
  have "state_num (installState gcp_created) < state_num SUCCESS"
    by code_simp
  from fetch_failure_in_direct_poll [OF this, of 5]
  show ?thesis by blast
qed

text \<open>
  Against C6 as stated. The first fetch rejects: \<^verbatim>\<open>waitOnInstall\<close> rejects with that error
  and the loop has ended with the server in CREATED; the second fetch, which would have
  shown a finished installation, is never made.
\<close>

theorem fetch_rejection_counterexample:
  "gcp_waitOnInstall (Resolves ()) [fetch_rejected, poll_of (Some ready_items)] gcp_fresh
     = (gcp_created, Some (Rejected FetchRejected))
   \<and> installState gcp_created = CREATED
   \<and> snd (gcp_waitOnInstall (Resolves ()) [poll_of (Some ready_items)] gcp_fresh)
       = Some Fulfilled"
  by code_simp

subsection \<open>C7: a refresh that fails in the cached refresh\<close>

text \<open>
  Claim C7. When a refresh of a \<^verbatim>\<open>DigitalOceanServer\<close> fails in a state below SUCCESS, the
  state is ERROR at once and the 3-second interval is cleared, so no other refresh is
  started; the next check of \<^verbatim>\<open>waitOnInstall\<close> clears its own interval and rejects with
  \<^verbatim>\<open>ServerInstallFailedError\<close>; and whatever arrives afterwards changes none of this.
\<close>

theorem refresh_failure_is_final:
  fixes hex :: "string option \<Rightarrow> string option"
  assumes "state_num (installState s) < state_num SUCCESS"
    and "s' = do_step hex s (t, RefreshFailed)"
  shows "installState s' = ERROR \<and> \<not> refreshing s'
       \<and> do_waitOnInstall_tick s' = Settle (Rejected ServerInstallFailedError)
       \<and> installState (do_run hex s' evs) = ERROR \<and> \<not> refreshing (do_run hex s' evs)
       \<and> do_waitOnInstall_tick (do_run hex s' evs) = Settle (Rejected ServerInstallFailedError)"
proof -
  from assms have e: "installState s' = ERROR" and r: "\<not> refreshing s'"
    by (simp_all add: do_setInstallState_fields)
  from e have "installState (do_run hex s' evs) = ERROR"
    using do_run_final[of s' hex evs] by simp
  with e r show ?thesis
    by (simp add: do_waitOnInstall_tick_simps do_run_refreshing)
qed

text \<open>
  The theorem at a waiting server, whose interval is running, and whose first refresh
  fails; a later refresh with the tags of a finished installation changes nothing.
\<close>

theorem refresh_failure_is_final_witness:
  "refreshing (do_server [])
   \<and> installState (do_step hexToString (do_server []) (3200, RefreshFailed)) = ERROR
   \<and> \<not> refreshing (do_step hexToString (do_server []) (3200, RefreshFailed))
   \<and> do_waitOnInstall_tick
       (do_run hexToString (do_step hexToString (do_server []) (3200, RefreshFailed))
          [(6200, Refreshed (droplet ready_tags))])
       = Settle (Rejected ServerInstallFailedError)"
proof -
  have a: "state_num (installState (do_server [])) < state_num SUCCESS"
    by code_simp
  have b: "refreshing (do_server [])"
    by code_simp
  from refresh_failure_is_final [OF a refl, of hexToString 3200
      "[(6200, Refreshed (droplet ready_tags))]"] b
  show ?thesis by blast
qed

subsection \<open>C8: the address from the old tags\<close>

text \<open>
  Claim C8, as the code has it. Let the tag map have no \<^verbatim>\<open>apiurl\<close> (or an empty one), an
  \<^verbatim>\<open>apiport\<close> with a non-empty value and let the droplet have a non-empty public address.
  Then \<^verbatim>\<open>getManagementApiAddress\<close> returns \<^verbatim>\<open>https://<address>:<port>/\<close> when there is no
  \<^verbatim>\<open>apiprefix\<close> (or an empty one), and \<^verbatim>\<open>https://<address>:<port>/<prefix>/\<close> for a non-empty
  prefix, so \<^verbatim>\<open>/v1/\<close> for the prefix \<^verbatim>\<open>v1\<close>. A non-empty \<^verbatim>\<open>apiurl\<close> is returned with a slash
  appended when it does not end in one, and every address returned ends in a slash. With
  no \<^verbatim>\<open>apiurl\<close>, and an \<^verbatim>\<open>apiport\<close> or a public address that is missing or empty, the
  function throws.
\<close>

theorem legacy_endpoint_synthesis:
  fixes hex :: "string option \<Rightarrow> string option"
  shows "(\<not> truthy (map_of tagMap ''apiurl'') \<and> map_of tagMap ''apiport'' = Some port \<and> port \<noteq> []
          \<and> ip = Some address \<and> address \<noteq> [] \<longrightarrow>
            (\<not> truthy (map_of tagMap ''apiprefix'') \<longrightarrow>
               apiAddress_of tagMap ip = Inr (''https://'' @ address @ '':'' @ port @ ''/''))
          \<and> (map_of tagMap ''apiprefix'' = Some ''v1'' \<longrightarrow>
               apiAddress_of tagMap ip = Inr (''https://'' @ address @ '':'' @ port @ ''/v1/''))
          \<and> (map_of tagMap ''apiprefix'' = Some prefix \<and> prefix \<noteq> [] \<longrightarrow>
               apiAddress_of tagMap ip
                 = Inr (''https://'' @ address @ '':'' @ port @ ''/'' @ prefix @ ''/'')))
    \<and> (map_of tagMap ''apiurl'' = Some url \<and> url \<noteq> [] \<longrightarrow>
          apiAddress_of tagMap ip = Inr (if endsWithSlash url then url else url @ ''/''))
    \<and> (apiAddress_of tagMap ip = Inr apiAddress \<longrightarrow> endsWithSlash apiAddress)
    \<and> (\<not> truthy (map_of tagMap ''apiurl'')
          \<and> (\<not> truthy (map_of tagMap ''apiport'') \<or> \<not> truthy ip) \<longrightarrow>
          isl (apiAddress_of tagMap ip))
    \<and> getManagementApiAddress hex d = apiAddress_of (getTagMap hex d) (ipv4Address d)"
  by (auto simp: apiAddress_of_def truthy_def js_text_def endsWithSlash_def
      getManagementApiAddress_def Let_def split: option.splits if_splits)

text \<open>
  The theorem at a droplet with the public address 1.2.3.4 and the tags of the port 8080
  and the prefix v1.
\<close>

theorem legacy_endpoint_synthesis_witness:
  "getManagementApiAddress hexToString (droplet [''kv:apiport:38303830'', ''kv:apiprefix:7631''])
     = Inr (''https://'' @ ''1.2.3.4'' @ '':'' @ ''8080'' @ ''/v1/'')"
proof -
  let ?d = "droplet [''kv:apiport:38303830'', ''kv:apiprefix:7631'']"
  have a: "\<not> truthy (map_of (getTagMap hexToString ?d) ''apiurl'')"
    by code_simp
  have b: "map_of (getTagMap hexToString ?d) ''apiport'' = Some ''8080'' \<and> ''8080'' \<noteq> []"
    by code_simp
  have c: "ipv4Address ?d = Some ''1.2.3.4'' \<and> ''1.2.3.4'' \<noteq> []"
    by code_simp
  have d: "map_of (getTagMap hexToString ?d) ''apiprefix'' = Some ''v1''"
    by code_simp
  from legacy_endpoint_synthesis [of "getTagMap hexToString ?d" "''8080''" "ipv4Address ?d"
      "''1.2.3.4''" _ _ _ hexToString ?d] a b c d
  show ?thesis by metis
qed

text \<open>
  Against C8 as stated. The tag map has the port attribute, with the empty value, and
  the droplet has a public address: no address is returned, the function throws. The tag
  \<^verbatim>\<open>kv:apiport:\<close> gives that tag map.
\<close>

theorem empty_port_counterexample:
  "map_of [(''apiport'', '''' :: string)] ''apiurl'' = None
   \<and> map_of [(''apiport'', '''' :: string)] ''apiport'' = Some ''''
   \<and> apiAddress_of [(''apiport'', '''')] (Some ''1.2.3.4'') = Inl ''Could not get API port number''
   \<and> getTagMap hexToString (droplet [''kv:apiport:'']) = [(''apiport'', '''')]
   \<and> ipv4Address (droplet [''kv:apiport:'']) = Some ''1.2.3.4''
   \<and> getManagementApiAddress hexToString (droplet [''kv:apiport:''])
       = Inl ''Could not get API port number''"
  by code_simp

subsection \<open>C9: the host object\<close>

text \<open>
  Claim C9, as the code has it. \<^verbatim>\<open>DigitalOceanServer.getHost()\<close> makes a new object on
  every call: its reference was not in the store before, the object holds the session and
  the droplet the server has at the call (so its cost and region are those of that
  droplet), the objects made earlier are untouched, and two calls never return the same
  reference. \<^verbatim>\<open>GcpServer.getHost()\<close> makes no object: it
  returns the reference kept in \<^verbatim>\<open>gcpHost\<close>, which for a server made by the constructor is
  the host the constructor made, the same on every call.
\<close>

theorem getHost_objects:
  "fst (do_getHost s store) = length store
   \<and> snd (do_getHost s store) ! fst (do_getHost s store)
        = \<lparr>host_digitalOcean = digitalOcean s, host_dropletInfo = dropletInfo s\<rparr>
   \<and> getMonthlyCost (snd (do_getHost s store) ! fst (do_getHost s store))
        = size_price_monthly (dropletInfo s)
   \<and> getCloudLocation (snd (do_getHost s store) ! fst (do_getHost s store))
        = region_slug (dropletInfo s)
   \<and> take (length store) (snd (do_getHost s store)) = store
   \<and> fst (do_getHost s' (snd (do_getHost s store))) \<noteq> fst (do_getHost s store)
   \<and> gcp_getHost g hosts = (gcpHost g, hosts)
   \<and> (GcpServer_new loc name hosts = (g', hosts') \<longrightarrow>
        gcpHost g' = length hosts \<and> hosts' = hosts @ [\<lparr>locator = loc, addressName = name\<rparr>]
        \<and> gcp_getHost g' hosts' = (length hosts, hosts')
        \<and> gcp_getHost g' (snd (gcp_getHost g' hosts')) = gcp_getHost g' hosts')"
  by (auto simp: do_getHost_def new_object_def gcp_getHost_def GcpServer_new_def
      getMonthlyCost_def getCloudLocation_def)

text \<open>
  The theorem at the GCP server made in an empty store, and at a DigitalOcean server
  asked for its host before and after a refresh.
\<close>

theorem getHost_objects_witness:
  "gcp_getHost gcp_fresh gcp_store = (0, gcp_store)
   \<and> fst (do_getHost (refreshed_server ready_tags) (snd (do_getHost (do_server []) [])))
       \<noteq> fst (do_getHost (do_server []) [])"
proof -
  have "GcpServer_new ''zone-a/instance-1'' ''outline-1'' [] = (gcp_fresh, gcp_store)"
    by (simp add: gcp_fresh_def gcp_store_def)
  with getHost_objects [where s = "do_server []" and store = "[]"
      and s' = "refreshed_server ready_tags" and g = gcp_fresh and hosts = "[]"
      and loc = "''zone-a/instance-1''" and name = "''outline-1''"
      and g' = gcp_fresh and hosts' = gcp_store]
  show ?thesis by simp
qed

text \<open>
  Against C9 as stated. The host that \<^verbatim>\<open>GcpServer.getHost()\<close> returns is in the store
  before the call, made by the constructor, and a second call returns the same one.
\<close>

theorem cached_host_counterexample:
  "fst (gcp_getHost gcp_fresh gcp_store) < length gcp_store
   \<and> snd (gcp_getHost gcp_fresh gcp_store) = gcp_store
   \<and> fst (gcp_getHost gcp_fresh (snd (gcp_getHost gcp_fresh gcp_store)))
       = fst (gcp_getHost gcp_fresh gcp_store)"
  by code_simp

subsection \<open>C10: isInstallCompleted of the GCP server\<close>

text \<open>
  Claim C10. \<^verbatim>\<open>GcpServer.isInstallCompleted()\<close> is the comparison
  \<^verbatim>\<open>installState >= SUCCESS\<close>, so it is true exactly in SUCCESS, ERROR and DELETED: it is
  true after the delete callback from any state, after \<^verbatim>\<open>setInstallState(ERROR)\<close>, and
  after a loop body that saw the \<^verbatim>\<open>install-error\<close> attribute.
\<close>

theorem gcp_isInstallCompleted_error_deleted:
  "gcp_isInstallCompleted s = (installState s \<in> {SUCCESS, ERROR, DELETED})
   \<and> gcp_isInstallCompleted (gcp_onDelete s)
   \<and> gcp_isInstallCompleted (gcp_setInstallState ERROR s)
   \<and> (map_of attrs ''install-error'' \<noteq> None
        \<longrightarrow> gcp_isInstallCompleted (fst (waitOnInstall_body attrs s)))"
  by (cases "installState s")
     (auto simp: gcp_isInstallCompleted_def gcp_onDelete_def waitOnInstall_body_def
        gcp_setInstallState_fields Let_def split: option.splits)

text \<open>
  The theorem at a server in CREATED: completed after the delete callback, and after a
  fetch that showed \<^verbatim>\<open>install-error\<close>, though not before.
\<close>

theorem gcp_isInstallCompleted_error_deleted_witness:
  "\<not> gcp_isInstallCompleted gcp_created
   \<and> gcp_isInstallCompleted (gcp_onDelete gcp_created)
   \<and> gcp_isInstallCompleted (fst (waitOnInstall_body failed_items gcp_created))"
proof -
  have a: "installState gcp_created \<notin> {SUCCESS, ERROR, DELETED}"
    by code_simp
  have b: "map_of failed_items ''install-error'' \<noteq> None"
    by code_simp
  from gcp_isInstallCompleted_error_deleted [of gcp_created failed_items] a b
  show ?thesis by blast
qed

end
